theory Spec2Isabelle
  imports Main
begin

section \<open>Values, enumerations and exceptions\<close>

text \<open>
  The task manager is a Python program; its attributes are dynamically typed. The values
  that can sit in an attribute of a task, in a keyword argument of \<open>update_task\<close> or in
  a document read by \<open>json.load\<close> are the values JSON has: \<open>None\<close>, booleans,
  integers, strings, lists and dictionaries with string keys (floating point numbers are
  left out; no function of the program inspects a number). A dictionary is an association
  list in insertion order; a lookup finds the first binding of a key, and every
  dictionary the program builds has distinct keys.

  A Python \<open>str\<close> is a \<open>string\<close>: the list of the bytes of its UTF-8 encoding, in
  which an ASCII character is one byte below 128 and a text occurs in another exactly
  when its encoding occurs in the other's.
\<close>

datatype pyval =
    PNone
  | PBool bool
  | PInt int
  | PStr string
  | PList "pyval list"
  | PDict "(string \<times> pyval) list"

datatype py_error = KeyError | ValueError | TypeError | AttributeError | JSONDecodeError

datatype 'a outcome = Return 'a | Raise py_error

datatype Priority = LOW | MEDIUM | HIGH

datatype Status = PENDING | IN_PROGRESS | COMPLETED

text \<open>\<open>member.name\<close> of a \<open>Priority\<close> and \<open>member.value\<close> of a \<open>Status\<close>.\<close>

fun Priority_name :: "Priority \<Rightarrow> string" where
  "Priority_name LOW = ''LOW''"
| "Priority_name MEDIUM = ''MEDIUM''"
| "Priority_name HIGH = ''HIGH''"

fun Status_value :: "Status \<Rightarrow> string" where
  "Status_value PENDING = ''Pending''"
| "Status_value IN_PROGRESS = ''In Progress''"
| "Status_value COMPLETED = ''Completed''"

text \<open>
  \<open>Priority[name]\<close> looks a member up by its name and raises \<open>KeyError\<close> for any other
  key (\<open>TypeError\<close> for an unhashable one). \<open>Status(value)\<close> looks a member up by its
  value and raises \<open>ValueError\<close> for anything else.
\<close>

fun Priority_getitem :: "pyval \<Rightarrow> py_error + Priority" where
  "Priority_getitem (PStr s) =
     (if s = ''LOW'' then Inr LOW
      else if s = ''MEDIUM'' then Inr MEDIUM
      else if s = ''HIGH'' then Inr HIGH
      else Inl KeyError)"
| "Priority_getitem (PList xs) = Inl TypeError"
| "Priority_getitem (PDict kvs) = Inl TypeError"
| "Priority_getitem v = Inl KeyError"

fun Status_call :: "pyval \<Rightarrow> py_error + Status" where
  "Status_call (PStr s) =
     (if s = ''Pending'' then Inr PENDING
      else if s = ''In Progress'' then Inr IN_PROGRESS
      else if s = ''Completed'' then Inr COMPLETED
      else Inl ValueError)"
| "Status_call v = Inl ValueError"

text \<open>\<open>data[key]\<close>: only a dictionary can be subscripted by a string.\<close>

fun getitem :: "pyval \<Rightarrow> string \<Rightarrow> py_error + pyval" where
  "getitem (PDict kvs) key = (case map_of kvs key of None \<Rightarrow> Inl KeyError | Some v \<Rightarrow> Inr v)"
| "getitem v key = Inl TypeError"

section \<open>The Task entity\<close>

record Task =
  title :: pyval
  description :: pyval
  due_date :: pyval
  priority :: Priority
  status :: Status
  created_at :: pyval
  completed_at :: pyval

text \<open>
  \<open>Task.__init__\<close>. The reading of the clock, \<open>datetime.now().strftime(...)\<close>, is
  the argument \<open>now\<close>. All five arguments are written out; a call that leaves one out
  passes its default (\<open>""\<close>, \<open>None\<close>, \<open>Priority.MEDIUM\<close>, \<open>Status.PENDING\<close>).
\<close>

definition Task_init :: "string \<Rightarrow> pyval \<Rightarrow> pyval \<Rightarrow> pyval \<Rightarrow> Priority \<Rightarrow> Status \<Rightarrow> Task" where
  "Task_init now title' description' due_date' priority' status' =
     \<lparr> title = title', description = description', due_date = due_date',
       priority = priority', status = status',
       created_at = PStr now, completed_at = PNone \<rparr>"

definition mark_complete :: "string \<Rightarrow> Task \<Rightarrow> Task" where
  "mark_complete now self = self\<lparr> status := COMPLETED, completed_at := PStr now \<rparr>"

definition to_dict :: "Task \<Rightarrow> pyval" where
  "to_dict self = PDict
     [ (''title'', title self),
       (''description'', description self),
       (''due_date'', due_date self),
       (''priority'', PStr (Priority_name (priority self))),
       (''status'', PStr (Status_value (status self))),
       (''created_at'', created_at self),
       (''completed_at'', completed_at self) ]"

text \<open>
  \<open>Task.from_dict\<close>: the five arguments of the constructor call are evaluated left to
  right, the constructor runs (reading the clock), and then the two timestamps are read
  from the record. The first failing lookup raises.
\<close>

definition from_dict :: "string \<Rightarrow> pyval \<Rightarrow> py_error + Task" where
  "from_dict now data =
     (case getitem data ''title'' of Inl e \<Rightarrow> Inl e | Inr t \<Rightarrow>
      case getitem data ''description'' of Inl e \<Rightarrow> Inl e | Inr d \<Rightarrow>
      case getitem data ''due_date'' of Inl e \<Rightarrow> Inl e | Inr dd \<Rightarrow>
      case getitem data ''priority'' of Inl e \<Rightarrow> Inl e | Inr pv \<Rightarrow>
      case Priority_getitem pv of Inl e \<Rightarrow> Inl e | Inr p \<Rightarrow>
      case getitem data ''status'' of Inl e \<Rightarrow> Inl e | Inr sv \<Rightarrow>
      case Status_call sv of Inl e \<Rightarrow> Inl e | Inr s \<Rightarrow>
      let task = Task_init now t d dd p s in
      case getitem data ''created_at'' of Inl e \<Rightarrow> Inl e | Inr c \<Rightarrow>
      case getitem data ''completed_at'' of Inl e \<Rightarrow> Inl e | Inr ca \<Rightarrow>
      Inr (task\<lparr> created_at := c, completed_at := ca \<rparr>))"

section \<open>Strings\<close>

text \<open>
  \<open>str.lower\<close> and \<open>str.upper\<close> belong to Python. On ASCII text they map the 26
  letters, character by character, and leave every other character as it is. What
  \<open>str.lower\<close> returns for a text with a character outside ASCII comes from the
  Unicode tables of the library (it depends on the neighbours of a character and can
  change the length of the text); it is the parameter \<open>unicode_lower\<close> of \<open>lower\<close> and
  of every function that calls it. \<open>upper\<close> is the ASCII mapping: \<open>update_task\<close> calls
  it on the value of the \<open>priority\<close> keyword before a lookup among three ASCII names, and
  wherever a statement below depends on it that value is ASCII text.
\<close>

definition lower_char :: "char \<Rightarrow> char" where
  "lower_char c =
     (case map_of (zip ''ABCDEFGHIJKLMNOPQRSTUVWXYZ'' ''abcdefghijklmnopqrstuvwxyz'') c of
        None \<Rightarrow> c
      | Some d \<Rightarrow> d)"

definition upper_char :: "char \<Rightarrow> char" where
  "upper_char c =
     (case map_of (zip ''abcdefghijklmnopqrstuvwxyz'' ''ABCDEFGHIJKLMNOPQRSTUVWXYZ'') c of
        None \<Rightarrow> c
      | Some d \<Rightarrow> d)"

definition is_ascii :: "string \<Rightarrow> bool" where
  "is_ascii s = list_all (\<lambda>c. \<not> digit7 c) s"

definition lower :: "(string \<Rightarrow> string) \<Rightarrow> string \<Rightarrow> string" where
  "lower unicode_lower s = (if is_ascii s then map lower_char s else unicode_lower s)"

definition upper :: "string \<Rightarrow> string" where
  "upper s = map upper_char s"

text \<open>
  \<open>value.lower()\<close> and \<open>value.upper()\<close> on a value of any type: only a string has
  these methods.
\<close>

fun str_lower :: "(string \<Rightarrow> string) \<Rightarrow> pyval \<Rightarrow> py_error + string" where
  "str_lower unicode_lower (PStr s) = Inr (lower unicode_lower s)"
| "str_lower unicode_lower v = Inl AttributeError"

fun str_upper :: "pyval \<Rightarrow> py_error + string" where
  "str_upper (PStr s) = Inr (upper s)"
| "str_upper v = Inl AttributeError"

text \<open>\<open>sub in s\<close> on two strings: \<open>sub\<close> occurs in \<open>s\<close> at some position.\<close>

fun str_contains :: "string \<Rightarrow> string \<Rightarrow> bool" where
  "str_contains [] sub = (sub = [])"
| "str_contains (c # cs) sub = (take (length sub) (c # cs) = sub \<or> str_contains cs sub)"

section \<open>List objects, files and the store\<close>

text \<open>
  \<open>self.tasks\<close> is a reference to a list object, and \<open>list_tasks\<close> hands a reference
  out, so list objects live in a heap: \<open>heap env a\<close> is the content of the list at
  address \<open>a\<close>, and the addresses from \<open>next_addr env\<close> on are free. The cells of a
  list hold the tasks by their field values.

  \<open>json.dump\<close> and \<open>json.load\<close> belong to the Python library. The text of a file is
  represented by what \<open>json.load\<close> makes of it: \<open>Malformed\<close> for a text it rejects
  with \<open>JSONDecodeError\<close>, \<open>Document v\<close> for a text it parses to \<open>v\<close>;
  \<open>json.dump\<close> of \<open>v\<close> writes a text that parses to \<open>v\<close>. Failures of the file
  system itself (permissions, a full disk) are not part of the model.
\<close>

type_synonym addr = nat

datatype content = Malformed | Document pyval

record env =
  heap :: "addr \<Rightarrow> Task list"
  next_addr :: addr
  files :: "string \<rightharpoonup> content"

record TaskManager =
  filename :: string
  tasks :: addr

text \<open>A list display or comprehension allocates a new list object.\<close>

definition new_list :: "Task list \<Rightarrow> env \<Rightarrow> addr \<times> env" where
  "new_list xs env =
     (next_addr env,
      env\<lparr> heap := (heap env)(next_addr env := xs), next_addr := Suc (next_addr env) \<rparr>)"

text \<open>Any in-place change of the list object at an address (append, remove, reorder).\<close>

definition list_mutate :: "addr \<Rightarrow> (Task list \<Rightarrow> Task list) \<Rightarrow> env \<Rightarrow> env" where
  "list_mutate a f env = env\<lparr> heap := (heap env)(a := f (heap env a)) \<rparr>"

definition json_load :: "content \<Rightarrow> py_error + pyval" where
  "json_load c = (case c of Malformed \<Rightarrow> Inl JSONDecodeError | Document v \<Rightarrow> Inr v)"

definition json_dump :: "pyval \<Rightarrow> content" where
  "json_dump v = Document v"

definition save_tasks :: "TaskManager \<Rightarrow> env \<Rightarrow> env" where
  "save_tasks self env =
     env\<lparr> files := (files env)
       (filename self \<mapsto> json_dump (PList (map to_dict (heap env (tasks self))))) \<rparr>"

text \<open>
  \<open>for data in tasks_data\<close>: a list yields its elements, a dictionary its keys, a
  string its characters; nothing else can be iterated.
\<close>

fun iter :: "pyval \<Rightarrow> py_error + pyval list" where
  "iter (PList xs) = Inr xs"
| "iter (PDict kvs) = Inr (map (\<lambda>kv. PStr (fst kv)) kvs)"
| "iter (PStr s) = Inr (map (\<lambda>c. PStr [c]) s)"
| "iter v = Inl TypeError"

text \<open>
  \<open>[Task.from_dict(data) for data in tasks_data]\<close>: the first record that fails ends
  the comprehension. \<open>clock k\<close> is the reading of the clock while record \<open>k\<close> is built.
\<close>

fun from_dicts :: "(nat \<Rightarrow> string) \<Rightarrow> nat \<Rightarrow> pyval list \<Rightarrow> py_error + Task list" where
  "from_dicts clock k [] = Inr []"
| "from_dicts clock k (data # rest) =
     (case from_dict (clock k) data of
        Inl e \<Rightarrow> Inl e
      | Inr task \<Rightarrow>
          (case from_dicts clock (Suc k) rest of
             Inl e \<Rightarrow> Inl e
           | Inr ts \<Rightarrow> Inr (task # ts)))"

text \<open>The body of the \<open>try\<close> block of \<open>load_tasks\<close>.\<close>

definition load_body :: "(nat \<Rightarrow> string) \<Rightarrow> content \<Rightarrow> py_error + Task list" where
  "load_body clock c =
     (case json_load c of
        Inl e \<Rightarrow> Inl e
      | Inr tasks_data \<Rightarrow>
          (case iter tasks_data of
             Inl e \<Rightarrow> Inl e
           | Inr ds \<Rightarrow> from_dicts clock 0 ds))"

text \<open>
  \<open>load_tasks\<close>: nothing happens when the file does not exist; \<open>except
  json.JSONDecodeError\<close> catches that exception alone and binds \<open>self.tasks\<close> to a new
  empty list; any other exception leaves the \<open>try\<close> block and the method.
\<close>

definition load_tasks ::
  "(nat \<Rightarrow> string) \<Rightarrow> TaskManager \<Rightarrow> env \<Rightarrow> unit outcome \<times> TaskManager \<times> env" where
  "load_tasks clock self env =
     (case files env (filename self) of
        None \<Rightarrow> (Return (), self, env)
      | Some c \<Rightarrow>
          (case load_body clock c of
             Inr ts \<Rightarrow>
               (let (a, env') = new_list ts env in (Return (), self\<lparr> tasks := a \<rparr>, env'))
           | Inl e \<Rightarrow>
               if e = JSONDecodeError
               then (let (a, env') = new_list [] env in (Return (), self\<lparr> tasks := a \<rparr>, env'))
               else (Raise e, self, env)))"

definition TaskManager_init ::
  "(nat \<Rightarrow> string) \<Rightarrow> string \<Rightarrow> env \<Rightarrow> unit outcome \<times> TaskManager \<times> env" where
  "TaskManager_init clock filename' env =
     (let (a, env') = new_list [] env
      in load_tasks clock \<lparr> filename = filename', tasks = a \<rparr> env')"

definition add_task :: "TaskManager \<Rightarrow> Task \<Rightarrow> env \<Rightarrow> env" where
  "add_task self task env =
     save_tasks self (list_mutate (tasks self) (\<lambda>xs. xs @ [task]) env)"

definition in_range :: "int \<Rightarrow> Task list \<Rightarrow> bool" where
  "in_range index xs = (0 \<le> index \<and> index < int (length xs))"

definition delete_task :: "TaskManager \<Rightarrow> int \<Rightarrow> env \<Rightarrow> bool \<times> env" where
  "delete_task self index env =
     (if in_range index (heap env (tasks self))
      then (True,
            save_tasks self
              (list_mutate (tasks self) (\<lambda>xs. take (nat index) xs @ drop (Suc (nat index)) xs) env))
      else (False, env))"

text \<open>
  \<open>hasattr(task, key)\<close> holds for the seven attributes that \<open>__init__\<close> sets. In
  Python it also holds for the names of the methods of the class and of the attributes
  that every object inherits; the model does not cover such keyword names, and
  \<open>reserved_name\<close> marks them (every inherited attribute name starts with two
  underscores).
\<close>

definition instance_attrs :: "string list" where
  "instance_attrs =
     [''title'', ''description'', ''due_date'', ''priority'', ''status'',
      ''created_at'', ''completed_at'']"

definition hasattr :: "Task \<Rightarrow> string \<Rightarrow> bool" where
  "hasattr task key = (key \<in> set instance_attrs)"


text \<open>\<open>setattr(task, key, value)\<close> for the attributes that hold a plain value.\<close>

definition setattr :: "Task \<Rightarrow> string \<Rightarrow> pyval \<Rightarrow> Task" where
  "setattr task key v =
     (if key = ''title'' then task\<lparr> title := v \<rparr>
      else if key = ''description'' then task\<lparr> description := v \<rparr>
      else if key = ''due_date'' then task\<lparr> due_date := v \<rparr>
      else if key = ''created_at'' then task\<lparr> created_at := v \<rparr>
      else if key = ''completed_at'' then task\<lparr> completed_at := v \<rparr>
      else task)"

text \<open>The body of the loop of \<open>update_task\<close>, for one keyword argument.\<close>

definition update_field :: "Task \<Rightarrow> string \<Rightarrow> pyval \<Rightarrow> py_error + Task" where
  "update_field task key v =
     (if hasattr task key then
        if key = ''priority'' then
          (case str_upper v of
             Inl e \<Rightarrow> Inl e
           | Inr name \<Rightarrow>
               (case Priority_getitem (PStr name) of
                  Inl e \<Rightarrow> Inl e
                | Inr p \<Rightarrow> Inr (task\<lparr> priority := p \<rparr>)))
        else if key = ''status'' then
          (case Status_call v of
             Inl e \<Rightarrow> Inl e
           | Inr s \<Rightarrow> Inr (task\<lparr> status := s \<rparr>))
        else Inr (setattr task key v)
      else Inr task)"

text \<open>
  \<open>for key, value in kwargs.items()\<close>: the task is changed in place, so when a lookup
  raises, the fields set before it stay set. The result is the task after the loop and
  the exception, if one was raised.
\<close>

fun update_fields :: "Task \<Rightarrow> (string \<times> pyval) list \<Rightarrow> Task \<times> py_error option" where
  "update_fields task [] = (task, None)"
| "update_fields task ((key, v) # kwargs) =
     (case update_field task key v of
        Inl e \<Rightarrow> (task, Some e)
      | Inr task' \<Rightarrow> update_fields task' kwargs)"

definition update_task ::
  "TaskManager \<Rightarrow> int \<Rightarrow> (string \<times> pyval) list \<Rightarrow> env \<Rightarrow> bool outcome \<times> env" where
  "update_task self index kwargs env =
     (if in_range index (heap env (tasks self)) then
        (let task = heap env (tasks self) ! nat index;
             (task', raised) = update_fields task kwargs;
             env' = list_mutate (tasks self) (\<lambda>xs. xs[nat index := task']) env
         in case raised of
              Some e \<Rightarrow> (Raise e, env')
            | None \<Rightarrow> (Return True, save_tasks self env'))
      else (Return False, env))"

text \<open>
  \<open>list_tasks\<close>: \<open>None\<close> is false and every member of \<open>Status\<close> is true, so a filter
  that is given selects the comprehension, and no filter returns \<open>self.tasks\<close> itself.
\<close>

definition list_tasks :: "TaskManager \<Rightarrow> Status option \<Rightarrow> env \<Rightarrow> addr \<times> env" where
  "list_tasks self filter_status env =
     (case filter_status of
        Some st \<Rightarrow> new_list (filter (\<lambda>task. status task = st) (heap env (tasks self))) env
      | None \<Rightarrow> (tasks self, env))"

text \<open>
  The condition of the comprehension of \<open>search_tasks\<close>; \<open>or\<close> evaluates its second
  operand only when the first is false.
\<close>

definition matches :: "(string \<Rightarrow> string) \<Rightarrow> string \<Rightarrow> Task \<Rightarrow> py_error + bool" where
  "matches unicode_lower keyword task =
     (case str_lower unicode_lower (title task) of
        Inl e \<Rightarrow> Inl e
      | Inr t \<Rightarrow>
          if str_contains t keyword then Inr True
          else (case str_lower unicode_lower (description task) of
                  Inl e \<Rightarrow> Inl e
                | Inr d \<Rightarrow> Inr (str_contains d keyword)))"

text \<open>A comprehension \<open>[x for x in xs if cond(x)]\<close> whose condition can raise.\<close>

fun select :: "('a \<Rightarrow> py_error + bool) \<Rightarrow> 'a list \<Rightarrow> py_error + 'a list" where
  "select cond [] = Inr []"
| "select cond (x # xs) =
     (case cond x of
        Inl e \<Rightarrow> Inl e
      | Inr b \<Rightarrow>
          (case select cond xs of
             Inl e \<Rightarrow> Inl e
           | Inr ys \<Rightarrow> Inr (if b then x # ys else ys)))"

definition search_tasks ::
  "(string \<Rightarrow> string) \<Rightarrow> TaskManager \<Rightarrow> string \<Rightarrow> env \<Rightarrow> addr outcome \<times> env" where
  "search_tasks unicode_lower self keyword env =
     (let keyword' = lower unicode_lower keyword
      in case select (matches unicode_lower keyword') (heap env (tasks self)) of
           Inl e \<Rightarrow> (Raise e, env)
         | Inr found \<Rightarrow> (let (a, env') = new_list found env in (Return a, env')))"

section \<open>Notions of the specification\<close>

text \<open>A value that is a text, as the data model asks of a title and a description.\<close>

definition is_text :: "pyval \<Rightarrow> bool" where
  "is_text v = (case v of PStr s \<Rightarrow> True | _ \<Rightarrow> False)"

definition ascii_text :: "pyval \<Rightarrow> bool" where
  "ascii_text v = (case v of PStr s \<Rightarrow> is_ascii s | _ \<Rightarrow> False)"

text \<open>
  Containing a keyword as a substring under case-insensitive comparison: some stretch
  \<open>m\<close> of the text equals the keyword when both are written in lower case.
\<close>

definition ci_substring :: "(string \<Rightarrow> string) \<Rightarrow> string \<Rightarrow> string \<Rightarrow> bool" where
  "ci_substring unicode_lower keyword s =
     (\<exists>p m q. s = p @ m @ q \<and> lower unicode_lower m = lower unicode_lower keyword)"

definition ci_found :: "(string \<Rightarrow> string) \<Rightarrow> string \<Rightarrow> pyval \<Rightarrow> bool" where
  "ci_found unicode_lower keyword v =
     (case v of PStr s \<Rightarrow> ci_substring unicode_lower keyword s | _ \<Rightarrow> False)"

text \<open>
  The lower-cased keyword is a substring of the lower-cased text: the text written in
  lower case as a whole has the keyword written in lower case at some position.
\<close>

definition lowered_found :: "(string \<Rightarrow> string) \<Rightarrow> string \<Rightarrow> pyval \<Rightarrow> bool" where
  "lowered_found unicode_lower keyword v =
     (case v of
        PStr s \<Rightarrow> (\<exists>p q. lower unicode_lower s = p @ lower unicode_lower keyword @ q)
      | _ \<Rightarrow> False)"

text \<open>
  What can be wrong with a persisted record: a required key is missing, the priority is
  not the name of a member, the status is not the display string of a member.
\<close>

definition missing_key :: "pyval \<Rightarrow> bool" where
  "missing_key d = (\<exists>key \<in> set instance_attrs. getitem d key = Inl KeyError)"

definition unrecognized_priority :: "pyval \<Rightarrow> bool" where
  "unrecognized_priority d =
     (case getitem d ''priority'' of
        Inl e \<Rightarrow> False
      | Inr v \<Rightarrow> v \<notin> set [PStr ''LOW'', PStr ''MEDIUM'', PStr ''HIGH''])"

definition unrecognized_status :: "pyval \<Rightarrow> bool" where
  "unrecognized_status d =
     (case getitem d ''status'' of
        Inl e \<Rightarrow> False
      | Inr v \<Rightarrow> v \<notin> set [PStr ''Pending'', PStr ''In Progress'', PStr ''Completed''])"

definition bad_record :: "pyval \<Rightarrow> bool" where
  "bad_record d = (missing_key d \<or> unrecognized_priority d \<or> unrecognized_status d)"


section \<open>An example store\<close>

definition task_a :: Task where
  "task_a = Task_init ''2024-01-01 09:00:00'' (PStr ''project-alpha-plan'') (PStr ''Kickoff'')
     PNone MEDIUM PENDING"

definition task_b :: Task where
  "task_b = mark_complete ''2024-01-03 12:00:00''
     (Task_init ''2024-01-02 10:30:00'' (PStr ''Buy milk'') (PStr ''two litres'')
        (PStr ''2024-01-05'') HIGH IN_PROGRESS)"

definition task_c :: Task where
  "task_c = Task_init ''2024-01-04 08:15:00'' (PStr ''Call Sam'') (PStr ''ask about the Alpha release'')
     PNone LOW PENDING"

definition store_env :: env where
  "store_env =
     \<lparr> heap = (\<lambda>a. [])(0 := [task_a, task_b, task_c]), next_addr = 1, files = Map.empty \<rparr>"

definition wall_clock :: "nat \<Rightarrow> string" where
  "wall_clock k = ''2024-03-01 00:00:00''"

definition record_medium :: pyval where
  "record_medium = PDict
     [ (''title'', PStr ''Water plants''), (''description'', PStr ''''), (''due_date'', PNone),
       (''priority'', PStr ''medium''), (''status'', PStr ''Pending''),
       (''created_at'', PStr ''2024-01-01 09:00:00''), (''completed_at'', PNone) ]"

definition corrupt_env :: env where
  "corrupt_env = store_env\<lparr> files := [''tasks.json'' \<mapsto> Malformed] \<rparr>"

text \<open>
  Greek text, in UTF-8: the word \<open>odos\<close> in capitals ends with a capital sigma;
  \<open>str.lower\<close> writes that sigma as a final sigma (bytes CF 82), and a capital sigma
  standing alone as a small sigma (bytes CF 83). \<open>lower_el\<close> is a \<open>unicode_lower\<close>
  that gives what \<open>str.lower\<close> returns for these two texts; it is consulted for no
  other text below.
\<close>

definition odos_capitals :: string where
  "odos_capitals =
     [CHR 0xCE, CHR 0x9F, CHR 0xCE, CHR 0x94, CHR 0xCE, CHR 0x9F, CHR 0xCE, CHR 0xA3]"

definition odos_small :: string where
  "odos_small =
     [CHR 0xCE, CHR 0xBF, CHR 0xCE, CHR 0xB4, CHR 0xCE, CHR 0xBF, CHR 0xCF, CHR 0x82]"

definition capital_sigma :: string where
  "capital_sigma = [CHR 0xCE, CHR 0xA3]"

definition small_sigma :: string where
  "small_sigma = [CHR 0xCF, CHR 0x83]"

definition lower_el :: "string \<Rightarrow> string" where
  "lower_el s =
     (if s = odos_capitals then odos_small
      else if s = capital_sigma then small_sigma
      else s)"

definition task_odos :: Task where
  "task_odos = Task_init ''2024-01-05 10:00:00'' (PStr odos_capitals) (PStr ''street'')
     PNone MEDIUM PENDING"

definition odos_env :: env where
  "odos_env = \<lparr> heap = (\<lambda>a. [])(0 := [task_odos]), next_addr = 1, files = Map.empty \<rparr>"

definition store :: TaskManager where
  "store = \<lparr> filename = ''tasks.json'', tasks = 0 \<rparr>"

section \<open>Properties of the Task entity\<close>

lemma Priority_getitem_name: "Priority_getitem (PStr (Priority_name p)) = Inr p"
  by (cases p) simp_all

lemma Status_call_value: "Status_call (PStr (Status_value s)) = Inr s"
  by (cases s) simp_all

lemma from_dict_inverse: "from_dict now (to_dict t) = Inr t"
  by (simp add: from_dict_def to_dict_def Task_init_def
      Priority_getitem_name Status_call_value
      del: Priority_getitem.simps Status_call.simps)

text \<open>
  C1. Round trip: rebuilding a task from its own record gives the task back, field for
  field; the timestamps come from the record, whatever the clock reads during the
  reconstruction. This holds for every task of the model, in particular for those whose
  fields are valid.
\<close>

theorem from_dict_to_dict:
  "from_dict now (to_dict t) = Inr t \<and>
   (\<forall>t'. from_dict now (to_dict t) = Inr t' \<longrightarrow>
      title t' = title t \<and> description t' = description t \<and> due_date t' = due_date t \<and>
      priority t' = priority t \<and> status t' = status t \<and>
      created_at t' = created_at t \<and> completed_at t' = completed_at t)"
  by (simp add: from_dict_inverse)

theorem from_dict_to_dict_witness:
  "from_dict ''2030-01-01 00:00:00'' (to_dict task_b) = Inr task_b \<and>
   created_at task_b = PStr ''2024-01-02 10:30:00'' \<and>
   completed_at task_b = PStr ''2024-01-03 12:00:00''"
  using from_dict_to_dict [of "''2030-01-01 00:00:00''" task_b]
  by (simp add: task_b_def Task_init_def mark_complete_def)

text \<open>
  C10. A freshly constructed task has no completion timestamp, whatever status it is
  given; a task constructed with status COMPLETED is completed with \<open>completed_at\<close>
  \<open>None\<close>.
\<close>

theorem Task_init_completed_at:
  "completed_at (Task_init now ti de du pr st) = PNone \<and>
   status (Task_init now ti de du pr st) = st \<and>
   status (Task_init now ti de du pr COMPLETED) = COMPLETED \<and>
   completed_at (Task_init now ti de du pr COMPLETED) = PNone"
  by (simp add: Task_init_def)

section \<open>Properties of the store\<close>

lemmas store_defs = store_def store_env_def task_a_def task_b_def task_c_def Task_init_def mark_complete_def

text \<open>
  C7. For an index outside \<open>0 \<le> index < len(self.tasks)\<close>, \<open>delete_task\<close> and
  \<open>update_task\<close> return \<open>False\<close>, raise nothing, and leave the whole environment as it
  was: the list object, every other list and every file (nothing is saved).
\<close>

theorem out_of_range_unchanged:
  "\<not> in_range index (heap env (tasks self)) \<Longrightarrow>
   delete_task self index env = (False, env) \<and>
   update_task self index kwargs env = (Return False, env)"
  by (simp add: delete_task_def update_task_def)

theorem out_of_range_unchanged_witness:
  "delete_task store 3 store_env = (False, store_env) \<and>
   update_task store 3 [(''title'', PStr ''x'')] store_env = (Return False, store_env) \<and>
   delete_task store (- 1) store_env = (False, store_env) \<and>
   update_task store (- 1) [(''title'', PStr ''x'')] store_env = (Return False, store_env)"
  using out_of_range_unchanged [of 3 store_env store "[(''title'', PStr ''x'')]"]
    out_of_range_unchanged [of "- 1" store_env store "[(''title'', PStr ''x'')]"]
  by (simp add: in_range_def store_def store_env_def)

lemma in_range_nat: "in_range index xs \<Longrightarrow> nat index < length xs"
  by (simp add: in_range_def nat_less_iff)

lemma update_fields_status_completed:
  "update_fields t [(''status'', PStr ''Completed'')] = (t\<lparr> status := COMPLETED \<rparr>, None)"
  by (simp add: update_field_def hasattr_def instance_attrs_def)

text \<open>
  C3. \<open>mark_complete\<close> sets the status to COMPLETED and \<open>completed_at\<close> to the current
  timestamp, which is not \<open>None\<close>. \<open>update_task\<close> with \<open>status="Completed"\<close> on an
  index in range returns \<open>True\<close> and sets the status of that task to COMPLETED, and its
  \<open>completed_at\<close> stays what it was.
\<close>

theorem two_completion_paths:
  "status (mark_complete now t) = COMPLETED \<and>
   completed_at (mark_complete now t) = PStr now \<and>
   completed_at (mark_complete now t) \<noteq> PNone \<and>
   (in_range index (heap env (tasks self)) \<longrightarrow>
      fst (update_task self index [(''status'', PStr ''Completed'')] env) = Return True \<and>
      heap (snd (update_task self index [(''status'', PStr ''Completed'')] env)) (tasks self) =
        (heap env (tasks self))
          [nat index := (heap env (tasks self) ! nat index)\<lparr> status := COMPLETED \<rparr>] \<and>
      status (heap (snd (update_task self index [(''status'', PStr ''Completed'')] env))
                (tasks self) ! nat index) = COMPLETED \<and>
      completed_at (heap (snd (update_task self index [(''status'', PStr ''Completed'')] env))
                (tasks self) ! nat index) =
        completed_at (heap env (tasks self) ! nat index))"
  by (simp add: mark_complete_def update_task_def update_fields_status_completed
      list_mutate_def save_tasks_def in_range_nat Let_def del: update_fields.simps)

theorem two_completion_paths_witness:
  "in_range 0 (heap store_env (tasks store)) \<and>
   completed_at (heap store_env (tasks store) ! nat 0) = PNone \<and>
   fst (update_task store 0 [(''status'', PStr ''Completed'')] store_env) = Return True \<and>
   status (heap (snd (update_task store 0 [(''status'', PStr ''Completed'')] store_env))
             (tasks store) ! nat 0) = COMPLETED \<and>
   completed_at (heap (snd (update_task store 0 [(''status'', PStr ''Completed'')] store_env))
             (tasks store) ! nat 0) = PNone \<and>
   status (mark_complete ''2024-02-01 00:00:00'' task_a) = COMPLETED \<and>
   completed_at (mark_complete ''2024-02-01 00:00:00'' task_a) = PStr ''2024-02-01 00:00:00''"
  using two_completion_paths [of "''2024-02-01 00:00:00''" task_a 0 store_env store]
  by (simp add: in_range_def store_defs)

text \<open>
  C2, as amended. \<open>list_tasks\<close> raises nothing and returns a list holding the stored
  tasks whose status equals the filter, or all of them without a filter, in the order of
  the store (so an empty list when none match), and leaves the store's list as it was.
  With a filter the returned list is a new object, and no change made to it reaches the
  store's list. Without a filter the returned list is the store's own list object:
  a change made to it is a change of the store's list.
\<close>

theorem list_tasks_result:
  assumes "tasks self < next_addr env"
  shows "heap (snd (list_tasks self filter_status env)) (fst (list_tasks self filter_status env)) =
           (case filter_status of
              None \<Rightarrow> heap env (tasks self)
            | Some st \<Rightarrow> filter (\<lambda>task. status task = st) (heap env (tasks self))) \<and>
         heap (snd (list_tasks self filter_status env)) (tasks self) = heap env (tasks self) \<and>
         (filter_status \<noteq> None \<longrightarrow>
            fst (list_tasks self filter_status env) \<noteq> tasks self \<and>
            (\<forall>f. heap (list_mutate (fst (list_tasks self filter_status env)) f
                        (snd (list_tasks self filter_status env))) (tasks self) =
                 heap env (tasks self))) \<and>
         (filter_status = None \<longrightarrow>
            list_tasks self filter_status env = (tasks self, env) \<and>
            (\<forall>f. heap (list_mutate (fst (list_tasks self filter_status env)) f
                        (snd (list_tasks self filter_status env))) (tasks self) =
                 f (heap env (tasks self))))"
  using assms by (cases filter_status) (simp_all add: list_tasks_def new_list_def list_mutate_def)

theorem list_tasks_result_witness:
  "tasks store < next_addr store_env \<and>
   fst (list_tasks store (Some PENDING) store_env) = 1 \<and>
   heap (snd (list_tasks store (Some PENDING) store_env)) 1 = [task_a, task_c] \<and>
   heap (snd (list_tasks store (Some IN_PROGRESS) store_env)) 1 = [] \<and>
   heap (list_mutate 1 rev (snd (list_tasks store (Some PENDING) store_env))) (tasks store) =
     [task_a, task_b, task_c] \<and>
   list_tasks store None store_env = (0, store_env)"
  using list_tasks_result [of store store_env "Some PENDING"]
    list_tasks_result [of store store_env "Some IN_PROGRESS"]
    list_tasks_result [of store store_env None]
  by (simp add: store_defs list_tasks_def new_list_def list_mutate_def)

text \<open>
  C2 as stated fails without a filter: removing the first element of the list that
  \<open>list_tasks()\<close> returned removes it from the store.
\<close>

theorem list_tasks_alias_counterexample:
  "heap (list_mutate (fst (list_tasks store None store_env)) tl
           (snd (list_tasks store None store_env))) (tasks store) \<noteq>
   heap store_env (tasks store)"
  by (simp add: list_tasks_def list_mutate_def store_def store_env_def)

subsection \<open>Search\<close>

lemma take_eq_prefix: "take (length sub) s = sub \<longleftrightarrow> (\<exists>q. s = sub @ q)"
  by (metis append_take_drop_id append_eq_conv_conj)

lemma str_contains_iff: "str_contains s sub \<longleftrightarrow> (\<exists>p q. s = p @ sub @ q)"
proof (induction s)
  case Nil
  show ?case by auto
next
  case (Cons c cs)
  have "(\<exists>p q. c # cs = p @ sub @ q) \<longleftrightarrow>
        (\<exists>q. c # cs = sub @ q) \<or> (\<exists>p q. cs = p @ sub @ q)"
    by (auto simp: Cons_eq_append_conv)
  with Cons show ?case
    by (simp only: str_contains.simps take_eq_prefix)
qed

lemma str_contains_empty: "str_contains s []"
  by (cases s) simp_all

lemma is_ascii_append: "is_ascii (a @ b) \<longleftrightarrow> is_ascii a \<and> is_ascii b"
  by (simp add: is_ascii_def)

lemma lower_ascii: "is_ascii s \<Longrightarrow> lower ul s = map lower_char s"
  by (simp add: lower_def)

lemma lower_empty: "lower ul [] = []"
  by (simp add: lower_def is_ascii_def)

text \<open>
  On ASCII text, lower-casing goes character by character, so a stretch that equals the
  keyword up to case is an occurrence of the lower-cased keyword in the lower-cased text.
\<close>

lemma ci_substring_ascii:
  assumes "is_ascii s" and "is_ascii keyword"
  shows "ci_substring ul keyword s \<longleftrightarrow> (\<exists>p q. lower ul s = p @ lower ul keyword @ q)"
proof
  assume "ci_substring ul keyword s"
  then obtain p m q where s: "s = p @ m @ q" and m: "lower ul m = lower ul keyword"
    unfolding ci_substring_def by blast
  from assms(1) s have "is_ascii m"
    by (simp add: is_ascii_append)
  with m have "map lower_char m = lower ul keyword"
    by (simp add: lower_ascii)
  with assms(1) s have "lower ul s = map lower_char p @ lower ul keyword @ map lower_char q"
    by (simp add: lower_ascii)
  then show "\<exists>p q. lower ul s = p @ lower ul keyword @ q"
    by blast
next
  assume "\<exists>p q. lower ul s = p @ lower ul keyword @ q"
  then obtain p' q' where "map lower_char s = p' @ map lower_char keyword @ q'"
    using assms by (auto simp: lower_ascii)
  then obtain p r where s: "s = p @ r" and "map lower_char r = map lower_char keyword @ q'"
    by (metis map_eq_append_conv)
  then obtain m q where r: "r = m @ q" and m: "map lower_char m = map lower_char keyword"
    by (metis map_eq_append_conv)
  from assms(1) s r have "is_ascii m"
    by (simp add: is_ascii_append)
  with m assms(2) have "lower ul m = lower ul keyword"
    by (simp add: lower_ascii)
  with s r show "ci_substring ul keyword s"
    unfolding ci_substring_def by blast
qed

lemma ascii_found:
  "ascii_text v \<Longrightarrow> is_ascii keyword \<Longrightarrow> ci_found ul keyword v = lowered_found ul keyword v"
  by (cases v) (simp_all add: ascii_text_def ci_found_def lowered_found_def ci_substring_ascii)

lemma lowered_found_PStr:
  "lowered_found ul keyword (PStr s) = str_contains (lower ul s) (lower ul keyword)"
  by (simp add: lowered_found_def str_contains_iff)

lemma ci_found_PStr:
  "is_ascii s \<Longrightarrow> is_ascii keyword \<Longrightarrow>
   ci_found ul keyword (PStr s) = str_contains (lower ul s) (lower ul keyword)"
  by (simp add: ci_found_def ci_substring_ascii str_contains_iff)

lemma matches_text:
  "title t = PStr ti \<Longrightarrow> description t = PStr de \<Longrightarrow>
   matches ul (lower ul keyword) t =
     Inr (lowered_found ul keyword (title t) \<or> lowered_found ul keyword (description t))"
  by (simp add: matches_def lowered_found_def str_contains_iff)

lemma select_filter:
  "\<forall>x \<in> set xs. cond x = Inr (P x) \<Longrightarrow> select cond xs = Inr (filter P xs)"
  by (induction xs) simp_all

lemma is_textE: "is_text v \<Longrightarrow> \<exists>s. v = PStr s"
  by (cases v) (simp_all add: is_text_def)

lemma search_tasks_text:
  assumes "\<forall>t \<in> set (heap env (tasks self)). is_text (title t) \<and> is_text (description t)"
  shows "search_tasks ul self keyword env =
           (Return (next_addr env),
            snd (new_list
              (filter (\<lambda>t. lowered_found ul keyword (title t) \<or>
                            lowered_found ul keyword (description t))
                 (heap env (tasks self))) env))"
proof -
  have "\<forall>t \<in> set (heap env (tasks self)).
          matches ul (lower ul keyword) t =
            Inr (lowered_found ul keyword (title t) \<or> lowered_found ul keyword (description t))"
    using assms by (metis is_textE matches_text)
  then have "select (matches ul (lower ul keyword)) (heap env (tasks self)) =
          Inr (filter (\<lambda>t. lowered_found ul keyword (title t) \<or>
                            lowered_found ul keyword (description t))
                 (heap env (tasks self)))"
    by (rule select_filter)
  then show ?thesis
    by (simp add: search_tasks_def new_list_def)
qed

lemma alpha_found: "lowered_found ul ''ALPHA'' (PStr ''project-alpha-plan'')"
  by (simp add: lowered_found_PStr lower_def is_ascii_def lower_char_def)

lemma filter_ascii:
  assumes "is_ascii keyword"
    and "\<forall>t \<in> set xs. ascii_text (title t) \<and> ascii_text (description t)"
  shows "filter (\<lambda>t. lowered_found ul keyword (title t) \<or>
                      lowered_found ul keyword (description t)) xs =
         filter (\<lambda>t. ci_found ul keyword (title t) \<or> ci_found ul keyword (description t)) xs"
  using assms by (intro filter_cong) (simp_all add: ascii_found)

text \<open>
  C8, as amended. In a store whose titles and descriptions are texts, \<open>search_tasks\<close>
  returns a list holding exactly the stored tasks for which the keyword in lower case is
  a substring of the title in lower case or of the description in lower case, in the
  order of the store. When the keyword, the titles and the descriptions are ASCII texts,
  these are exactly the tasks whose title or description contains the keyword as a
  substring under case-insensitive comparison. Searching for \<open>ALPHA\<close> finds every task
  titled \<open>project-alpha-plan\<close>.
\<close>

theorem search_tasks_result:
  assumes "\<forall>t \<in> set (heap env (tasks self)). is_text (title t) \<and> is_text (description t)"
  shows "fst (search_tasks ul self keyword env) = Return (next_addr env) \<and>
         heap (snd (search_tasks ul self keyword env)) (next_addr env) =
           filter (\<lambda>t. lowered_found ul keyword (title t) \<or>
                        lowered_found ul keyword (description t))
             (heap env (tasks self)) \<and>
         (is_ascii keyword \<and>
          (\<forall>t \<in> set (heap env (tasks self)).
              ascii_text (title t) \<and> ascii_text (description t)) \<longrightarrow>
            heap (snd (search_tasks ul self keyword env)) (next_addr env) =
              filter (\<lambda>t. ci_found ul keyword (title t) \<or> ci_found ul keyword (description t))
                (heap env (tasks self))) \<and>
         (\<forall>t \<in> set (heap env (tasks self)). title t = PStr ''project-alpha-plan'' \<longrightarrow>
            t \<in> set (heap (snd (search_tasks ul self ''ALPHA'' env)) (next_addr env)))"
  by (simp add: search_tasks_text [OF assms] new_list_def alpha_found filter_ascii)

theorem search_tasks_result_witness:
  "is_ascii ''ALPHA'' \<and>
   fst (search_tasks lower_el store ''ALPHA'' store_env) = Return 1 \<and>
   heap (snd (search_tasks lower_el store ''ALPHA'' store_env)) 1 = [task_a, task_c] \<and>
   task_a \<in> set (heap (snd (search_tasks lower_el store ''ALPHA'' store_env)) 1) \<and>
   title task_a = PStr ''project-alpha-plan''"
  using search_tasks_result [of store_env store lower_el "''ALPHA''"]
  by (simp add: store_defs is_text_def ascii_text_def search_tasks_def matches_def new_list_def
      lowered_found_PStr ci_found_PStr lower_def is_ascii_def lower_char_def)

text \<open>
  C8 as stated fails outside ASCII. The title of the stored task is the Greek word in
  capitals and the keyword is the capital sigma it ends with, so the title contains the
  keyword, letter for letter. \<open>str.lower\<close> turns the sigma of the title into a final
  sigma and the keyword into a small sigma, and \<open>search_tasks\<close> finds nothing.
\<close>

theorem search_tasks_sigma_counterexample:
  "ci_found lower_el capital_sigma (title task_odos) \<and>
   fst (search_tasks lower_el store capital_sigma odos_env) = Return 1 \<and>
   heap (snd (search_tasks lower_el store capital_sigma odos_env)) 1 = []"
proof -
  have "odos_capitals = [CHR 0xCE, CHR 0x9F, CHR 0xCE, CHR 0x94, CHR 0xCE, CHR 0x9F] @
          capital_sigma @ []"
    by (simp add: odos_capitals_def capital_sigma_def)
  then have "ci_substring lower_el capital_sigma odos_capitals"
    unfolding ci_substring_def by blast
  then have found: "ci_found lower_el capital_sigma (title task_odos)"
    by (simp add: ci_found_def task_odos_def Task_init_def)
  have kw: "lower lower_el capital_sigma = small_sigma"
    by (simp add: lower_def lower_el_def is_ascii_def capital_sigma_def odos_capitals_def)
  have ti: "lower lower_el odos_capitals = odos_small"
    by (simp add: lower_def lower_el_def is_ascii_def odos_capitals_def)
  have de: "lower lower_el ''street'' = ''street''"
    by (simp add: lower_def is_ascii_def lower_char_def)
  have "matches lower_el small_sigma task_odos = Inr False"
    by (simp add: matches_def task_odos_def Task_init_def ti de odos_small_def small_sigma_def)
  then have "search_tasks lower_el store capital_sigma odos_env =
      (Return 1, snd (new_list [] odos_env))"
    by (simp add: search_tasks_def kw store_def odos_env_def new_list_def)
  with found show ?thesis
    by (simp add: new_list_def odos_env_def)
qed

lemma matches_empty: "is_text (title t) \<Longrightarrow> matches ul [] t = Inr True"
  by (auto simp: matches_def str_contains_empty dest: is_textE)

text \<open>
  C9. In a store whose titles are texts, \<open>search_tasks\<close> with the empty keyword is not
  rejected: it returns a list holding every stored task, in the order of the store.
\<close>

theorem search_tasks_empty_keyword:
  assumes "\<forall>t \<in> set (heap env (tasks self)). is_text (title t)"
  shows "fst (search_tasks ul self '''' env) = Return (next_addr env) \<and>
         heap (snd (search_tasks ul self '''' env)) (next_addr env) = heap env (tasks self)"
proof -
  have "\<forall>t \<in> set (heap env (tasks self)). matches ul [] t = Inr ((\<lambda>t. True) t)"
    using assms by (simp add: matches_empty)
  then have "select (matches ul []) (heap env (tasks self)) =
      Inr (filter (\<lambda>t. True) (heap env (tasks self)))"
    by (rule select_filter)
  then show ?thesis
    by (simp add: search_tasks_def new_list_def lower_empty)
qed

theorem search_tasks_empty_keyword_witness:
  "fst (search_tasks lower_el store '''' store_env) = Return 1 \<and>
   heap (snd (search_tasks lower_el store '''' store_env)) 1 = [task_a, task_b, task_c]"
  using search_tasks_empty_keyword [of store_env store lower_el]
  by (simp add: store_defs is_text_def)

subsection \<open>Loading and saving\<close>

lemma getitem_error: "getitem d key = Inl e \<Longrightarrow> e = KeyError \<or> e = TypeError"
  by (cases d) (auto split: option.splits)

lemma Priority_getitem_error: "Priority_getitem v = Inl e \<Longrightarrow> e = KeyError \<or> e = TypeError"
  by (cases v) (auto split: if_splits)

lemma Status_call_error: "Status_call v = Inl e \<Longrightarrow> e = ValueError"
  by (cases v) (auto split: if_splits)

lemma Priority_getitem_Inr:
  "Priority_getitem v = Inr p \<Longrightarrow> v \<in> set [PStr ''LOW'', PStr ''MEDIUM'', PStr ''HIGH'']"
  by (cases v) (auto split: if_splits)

lemma Status_call_Inr:
  "Status_call v = Inr s \<Longrightarrow>
   v \<in> set [PStr ''Pending'', PStr ''In Progress'', PStr ''Completed'']"
  by (cases v) (auto split: if_splits)

lemma from_dict_error:
  "from_dict now d = Inl e \<Longrightarrow> e = KeyError \<or> e = TypeError \<or> e = ValueError"
  unfolding from_dict_def Let_def
  by (auto split: sum.splits
      dest: getitem_error Priority_getitem_error Status_call_error
      simp del: Priority_getitem.simps Status_call.simps getitem.simps)

lemma from_dict_Inr: "from_dict now d = Inr t \<Longrightarrow> \<not> bad_record d"
  unfolding from_dict_def Let_def bad_record_def missing_key_def unrecognized_priority_def
    unrecognized_status_def instance_attrs_def
  by (auto split: sum.splits dest!: Priority_getitem_Inr Status_call_Inr
      simp del: Priority_getitem.simps Status_call.simps getitem.simps)

lemma from_dicts_Inr:
  "from_dicts clock k ds = Inr ts \<Longrightarrow> d \<in> set ds \<Longrightarrow> \<not> bad_record d"
proof (induction ds arbitrary: k ts)
  case Nil
  then show ?case by simp
next
  case (Cons x xs)
  then show ?case
    by (auto split: sum.splits dest: from_dict_Inr)
qed

lemma from_dicts_error:
  "from_dicts clock k ds = Inl e \<Longrightarrow> e = KeyError \<or> e = TypeError \<or> e = ValueError"
proof (induction ds arbitrary: k)
  case Nil
  then show ?case by simp
next
  case (Cons x xs)
  then show ?case
    by (auto split: sum.splits dest: from_dict_error)
qed

lemma from_dicts_bad:
  assumes "d \<in> set ds" and "bad_record d"
  shows "\<exists>e. from_dicts clock k ds = Inl e \<and> e \<noteq> JSONDecodeError"
proof (cases "from_dicts clock k ds")
  case (Inl e)
  then show ?thesis using from_dicts_error [OF Inl] by auto
next
  case (Inr ts)
  then show ?thesis using from_dicts_Inr [OF Inr assms(1)] assms(2) by simp
qed

text \<open>
  C4. When the text of the file is not valid JSON, \<open>load_tasks\<close> returns normally and
  the store holds a new empty list. When the file parses to a list of records and one of
  them lacks a required key or has a priority or status that names no member,
  \<open>load_tasks\<close> raises (a KeyError, TypeError or ValueError, none of which the handler
  catches): no record is skipped and the store is not reset, it stays as it was.
\<close>

theorem load_tasks_errors:
  "(files env (filename self) = Some Malformed \<longrightarrow>
      fst (load_tasks clock self env) = Return () \<and>
      heap (snd (snd (load_tasks clock self env)))
        (tasks (fst (snd (load_tasks clock self env)))) = []) \<and>
   (files env (filename self) = Some (Document (PList ds)) \<and> d \<in> set ds \<and> bad_record d \<longrightarrow>
      (\<exists>e. load_tasks clock self env = (Raise e, self, env) \<and>
           (e = KeyError \<or> e = TypeError \<or> e = ValueError)))"
proof (intro conjI impI)
  assume "files env (filename self) = Some Malformed"
  then show "fst (load_tasks clock self env) = Return ()"
    and "heap (snd (snd (load_tasks clock self env)))
           (tasks (fst (snd (load_tasks clock self env)))) = []"
    by (simp_all add: load_tasks_def load_body_def json_load_def new_list_def)
next
  assume a: "files env (filename self) = Some (Document (PList ds)) \<and> d \<in> set ds \<and> bad_record d"
  then obtain e where e: "from_dicts clock 0 ds = Inl e" "e \<noteq> JSONDecodeError"
    using from_dicts_bad by blast
  with a have "load_tasks clock self env = (Raise e, self, env)"
    by (simp add: load_tasks_def load_body_def json_load_def)
  with e(1) from_dicts_error show "\<exists>e. load_tasks clock self env = (Raise e, self, env) \<and>
           (e = KeyError \<or> e = TypeError \<or> e = ValueError)"
    by blast
qed

theorem load_tasks_errors_witness:
  "fst (load_tasks wall_clock store corrupt_env) = Return () \<and>
   heap (snd (snd (load_tasks wall_clock store corrupt_env)))
     (tasks (fst (snd (load_tasks wall_clock store corrupt_env)))) = [] \<and>
   bad_record record_medium \<and>
   load_tasks wall_clock store
     (store_env\<lparr> files := [''tasks.json'' \<mapsto> Document (PList [to_dict task_a, record_medium])] \<rparr>) =
     (Raise KeyError, store,
      store_env\<lparr> files := [''tasks.json'' \<mapsto> Document (PList [to_dict task_a, record_medium])] \<rparr>)"
  using load_tasks_errors [of corrupt_env store wall_clock "[]" PNone]
    load_tasks_errors
      [of "store_env\<lparr> files := [''tasks.json'' \<mapsto> Document (PList [to_dict task_a, record_medium])] \<rparr>"
        store wall_clock "[to_dict task_a, record_medium]" record_medium]
  by (simp add: store_defs corrupt_env_def record_medium_def load_tasks_def load_body_def
      json_load_def new_list_def from_dict_def to_dict_def bad_record_def missing_key_def
      unrecognized_priority_def unrecognized_status_def instance_attrs_def wall_clock_def)

lemma from_dicts_to_dict: "from_dicts clock k (map to_dict ts) = Inr ts"
  by (induction ts arbitrary: k) (simp_all add: from_dict_inverse)

lemma load_tasks_saved:
  assumes "files env (filename self) = Some (json_dump (PList (map to_dict ts)))"
  shows "load_tasks clock self env =
           (Return (), self\<lparr> tasks := next_addr env \<rparr>, snd (new_list ts env))"
proof -
  have "load_body clock (json_dump (PList (map to_dict ts))) = Inr ts"
    by (simp add: load_body_def json_load_def json_dump_def from_dicts_to_dict)
  with assms show ?thesis
    by (simp add: load_tasks_def new_list_def)
qed

lemma save_tasks_file:
  "files (save_tasks self env) (filename self) =
     Some (json_dump (PList (map to_dict (heap env (tasks self)))))"
  by (simp add: save_tasks_def)

lemma save_tasks_heap: "heap (save_tasks self env) = heap env"
  by (simp add: save_tasks_def)

lemma add_task_heap: "heap (add_task self task env) (tasks self) = heap env (tasks self) @ [task]"
  by (simp add: add_task_def save_tasks_def list_mutate_def)

lemma new_list_files: "files (snd (new_list xs env)) = files env"
  by (simp add: new_list_def)

lemma new_list_heap_new: "heap (snd (new_list xs env)) (next_addr env) = xs"
  by (simp add: new_list_def)

lemma new_list_next: "next_addr (snd (new_list xs env)) = Suc (next_addr env)"
  by (simp add: new_list_def)

text \<open>
  C5. After \<open>add_task\<close> and \<open>save_tasks\<close>, a new store constructed on the same file
  name loads without an exception a collection equal to the one in memory at the time of
  the save: the same tasks, hence the same records, in the same number and order. So
  does \<open>load_tasks\<close> called again on the store that saved.
\<close>

theorem add_save_load:
  "(let env1 = save_tasks self (add_task self task env);
        saved = heap env1 (tasks self);
        (r, self', env2) = TaskManager_init clock (filename self) env1
    in r = Return () \<and>
       filename self' = filename self \<and>
       saved = heap env (tasks self) @ [task] \<and>
       heap env2 (tasks self') = saved \<and>
       map to_dict (heap env2 (tasks self')) = map to_dict saved \<and>
       length (heap env2 (tasks self')) = length saved \<and>
       load_tasks clock self env1 =
         (Return (), self\<lparr> tasks := next_addr env1 \<rparr>, snd (new_list saved env1)))"
proof -
  define env1 where "env1 = save_tasks self (add_task self task env)"
  define saved where "saved = heap env1 (tasks self)"
  define env1' where "env1' = snd (new_list [] env1)"
  have saved_file: "files env1 (filename self) = Some (json_dump (PList (map to_dict saved)))"
    unfolding env1_def saved_def by (simp add: save_tasks_file save_tasks_heap)
  have saved: "saved = heap env (tasks self) @ [task]"
    unfolding env1_def saved_def by (simp add: save_tasks_heap add_task_heap)
  have "files env1' (filename self) = Some (json_dump (PList (map to_dict saved)))"
    unfolding env1'_def using saved_file by (simp add: new_list_files)
  then have "load_tasks clock \<lparr> filename = filename self, tasks = next_addr env1 \<rparr> env1' =
      (Return (), \<lparr> filename = filename self, tasks = next_addr env1' \<rparr>,
       snd (new_list saved env1'))"
    using load_tasks_saved [of env1' "\<lparr> filename = filename self, tasks = next_addr env1 \<rparr>" saved clock]
    by simp
  then have init: "TaskManager_init clock (filename self) env1 =
      (Return (), \<lparr> filename = filename self, tasks = next_addr env1' \<rparr>,
       snd (new_list saved env1'))"
    by (simp add: TaskManager_init_def env1'_def new_list_def)
  have load: "load_tasks clock self env1 =
      (Return (), self\<lparr> tasks := next_addr env1 \<rparr>, snd (new_list saved env1))"
    using saved_file by (rule load_tasks_saved)
  show ?thesis
    unfolding Let_def env1_def [symmetric] saved_def [symmetric]
    by (simp add: init load saved [symmetric] new_list_heap_new)
qed

theorem add_save_load_witness:
  "fst (TaskManager_init wall_clock (filename store)
          (save_tasks store (add_task store task_a store_env))) = Return () \<and>
   heap (snd (snd (TaskManager_init wall_clock (filename store)
          (save_tasks store (add_task store task_a store_env))))) 2 =
     [task_a, task_b, task_c, task_a] \<and>
   heap (save_tasks store (add_task store task_a store_env)) (tasks store) =
     [task_a, task_b, task_c, task_a]"
  using add_save_load [of store task_a store_env wall_clock]
  by (simp add: Let_def split_def store_def store_env_def TaskManager_init_def load_tasks_def
      save_tasks_def add_task_def list_mutate_def new_list_def load_body_def json_load_def
      json_dump_def from_dict_inverse)


subsection \<open>Updating\<close>






























end
